theory Spec2Isabelle
  imports
    Main
    "HOL-Library.Sublist"
    "HOL-Library.Char_ord"
    "HOL-Library.List_Lexorder"
    "HOL-Library.Product_Lexorder"
    "HOL-Library.Multiset"
begin

section \<open>Byte strings of the script\<close>

text \<open>
  The script \<^verbatim>\<open>tools/generate-api-docs.py\<close> is Python 2: its strings are byte strings,
  modelled as \<^typ>\<open>string\<close> (a list of 8-bit characters). The string methods it calls are
  written out below with the behaviour Python 2 gives them on byte strings.
\<close>

abbreviation NL :: char where "NL \<equiv> CHR 0x0A"
abbreviation TAB :: char where "TAB \<equiv> CHR 0x09"
abbreviation SPC :: char where "SPC \<equiv> CHR '' ''"

text \<open>The characters matched by \<^verbatim>\<open>\s\<close> and removed by \<^verbatim>\<open>rstrip()\<close> without argument.\<close>

definition is_space :: "char \<Rightarrow> bool" where
  "is_space c = (c = SPC \<or> c = TAB \<or> c = NL \<or> c = CHR 0x0D \<or> c = CHR 0x0B \<or> c = CHR 0x0C)"

text \<open>\<^verbatim>\<open>s.strip(chars)\<close>, \<^verbatim>\<open>s.rstrip(chars)\<close> and \<^verbatim>\<open>s.rstrip()\<close>.\<close>

definition py_rstrip :: "string \<Rightarrow> string \<Rightarrow> string" where
  "py_rstrip chars s = rev (dropWhile (\<lambda>c. c \<in> set chars) (rev s))"

definition py_strip :: "string \<Rightarrow> string \<Rightarrow> string" where
  "py_strip chars s = dropWhile (\<lambda>c. c \<in> set chars) (py_rstrip chars s)"

definition py_rstrip_ws :: "string \<Rightarrow> string" where
  "py_rstrip_ws s = rev (dropWhile is_space (rev s))"

text \<open>The three characters of the literal \<^verbatim>\<open>" \t\n"\<close> passed to \<^verbatim>\<open>strip\<close>.\<close>

definition STRIPCHARS :: string where
  "STRIPCHARS = [SPC, TAB, NL]"

text \<open>
  \<^verbatim>\<open>s.split(c)\<close> for a separator of one character: every occurrence of the separator
  ends a part, so the result always has at least one part and may have empty ones.
\<close>

fun split_char :: "char \<Rightarrow> string \<Rightarrow> string list" where
  "split_char c [] = [[]]"
| "split_char c (x # xs) =
     (if x = c then [] # split_char c xs
      else (case split_char c xs of
              p # ps \<Rightarrow> (x # p) # ps
            | [] \<Rightarrow> [[x]]))"

text \<open>\<^verbatim>\<open>sep.join(parts)\<close>.\<close>

fun join :: "string \<Rightarrow> string list \<Rightarrow> string" where
  "join sep [] = []"
| "join sep [p] = p"
| "join sep (p # q # ps) = p @ sep @ join sep (q # ps)"

text \<open>\<^verbatim>\<open>s.find(sub)\<close>: the index of the first occurrence, \<open>None\<close> for Python's \<open>-1\<close>.\<close>

fun py_find :: "string \<Rightarrow> string \<Rightarrow> nat option" where
  "py_find sub [] = (if sub = [] then Some 0 else None)"
| "py_find sub (x # xs) =
     (if prefix sub (x # xs) then Some 0 else map_option Suc (py_find sub xs))"

text \<open>\<^verbatim>\<open>s.replace(old, "", 1)\<close>: the first occurrence of \<open>old\<close> is deleted.\<close>

fun replace_first :: "string \<Rightarrow> string \<Rightarrow> string" where
  "replace_first old [] = []"
| "replace_first old (x # xs) =
     (if prefix old (x # xs) then drop (length old) (x # xs)
      else x # replace_first old xs)"

section \<open>Parameter parser\<close>

text \<open>
  \<^verbatim>\<open>parseParameters(lines)\<close>: for each line, \<^verbatim>\<open>l.split(" ")[0].strip(" \t\n")\<close> is the
  name and \<^verbatim>\<open>" ".join(l.split(" ")[1:])\<close> the text. The split never returns an empty
  list, so index 0 always exists (\<open>split_char_not_Nil\<close> below).
\<close>

fun parseParameters :: "string list \<Rightarrow> (string \<times> string) list" where
  "parseParameters [] = []"
| "parseParameters (l # ls) =
     (let paramName = py_strip STRIPCHARS (hd (split_char SPC l));
          paramText = join [SPC] (tl (split_char SPC l))
      in (paramName, paramText) # parseParameters ls)"

text \<open>
  The reading of the specification's words for the parameter name: the first token of the
  line delimited by whitespace, that is, the longest run of non-whitespace characters after
  any leading whitespace.
\<close>

definition spec_first_token :: "string \<Rightarrow> string" where
  "spec_first_token l = takeWhile (\<lambda>c. \<not> is_space c) (dropWhile is_space l)"

section \<open>Facts about the string functions\<close>

lemma split_char_not_Nil: "split_char c s \<noteq> []"
  by (induction s) (auto split: list.splits)

lemma hd_split_char: "hd (split_char c s) = takeWhile (\<lambda>x. x \<noteq> c) s"
  using split_char_not_Nil [of c]
  by (induction s) (auto split: list.splits)

lemma join_tl_split_char: "join [c] (tl (split_char c s)) = drop 1 (dropWhile (\<lambda>x. x \<noteq> c) s)"
proof -
  have inv: "join [c] (split_char c s) = s" for s
  proof (induction s)
    case Nil
    show ?case by simp
  next
    case (Cons x xs)
    show ?case
    proof (cases "split_char c xs")
      case Nil
      with split_char_not_Nil show ?thesis by blast
    next
      case (Cons p ps)
      with Cons.IH show ?thesis
        by (cases ps) auto
    qed
  qed
  show ?thesis
  proof (induction s)
    case Nil
    show ?case by simp
  next
    case (Cons x xs)
    show ?case
    proof (cases "x = c")
      case True
      then show ?thesis using inv [of xs] by simp
    next
      case False
      then show ?thesis using Cons.IH split_char_not_Nil [of c xs]
        by (auto split: list.splits)
    qed
  qed
qed

section \<open>Parameter parser: one pair per line\<close>

text \<open>
  C4, as amended. For every list of lines the parameter parser returns one pair per line,
  in input order. The name is the text before the first space character of the line (the
  whole line when it has no space), with spaces, tabs and newlines removed from both ends;
  the description is everything after that first space, unchanged (empty when the line
  has no space). On \<^verbatim>\<open>["x the x value", "y the y value"]\<close> the result is
  \<^verbatim>\<open>[("x","the x value"),("y","the y value")]\<close>.
\<close>

theorem parseParameters_by_first_space:
  "parseParameters lines =
     map (\<lambda>l. (py_strip STRIPCHARS (takeWhile (\<lambda>c. c \<noteq> SPC) l),
               drop 1 (dropWhile (\<lambda>c. c \<noteq> SPC) l))) lines
   \<and> parseParameters [''x the x value'', ''y the y value'']
       = [(''x'', ''the x value''), (''y'', ''the y value'')]"
proof
  show "parseParameters lines =
     map (\<lambda>l. (py_strip STRIPCHARS (takeWhile (\<lambda>c. c \<noteq> SPC) l),
               drop 1 (dropWhile (\<lambda>c. c \<noteq> SPC) l))) lines"
    by (induction lines) (simp_all add: hd_split_char join_tl_split_char)
  show "parseParameters [''x the x value'', ''y the y value'']
       = [(''x'', ''the x value''), (''y'', ''the y value'')]"
    by (simp add: py_strip_def py_rstrip_def STRIPCHARS_def)
qed

text \<open>
  C4 as stated fails: a tab is whitespace, but only a space ends the name. On the line
  \<^verbatim>\<open>"x\ty z"\<close> the first whitespace-delimited token is \<^verbatim>\<open>"x"\<close>, while the parser
  returns the name \<^verbatim>\<open>"x\ty"\<close>.
\<close>

theorem parseParameters_tab_counterexample:
  "parseParameters [[CHR ''x'', TAB, CHR ''y'', SPC, CHR ''z'']]
     = [([CHR ''x'', TAB, CHR ''y''], ''z'')]
   \<and> spec_first_token [CHR ''x'', TAB, CHR ''y'', SPC, CHR ''z''] = ''x''"
  by (simp add: py_strip_def py_rstrip_def STRIPCHARS_def spec_first_token_def is_space_def)

section \<open>Block extractor\<close>

text \<open>
  \<^verbatim>\<open>extractItems(item, doc)\<close> searches \<open>doc\<close> with the regular expression
  \<^verbatim>\<open>"^@" + item + ".*?\n\s*\n"\<close> under \<^verbatim>\<open>re.DOTALL | re.MULTILINE\<close>. The script
  only ever passes the tags \<^verbatim>\<open>function\<close>, \<^verbatim>\<open>param\<close>, \<^verbatim>\<open>retval\<close> and
  \<^verbatim>\<open>notice\<close>; the matcher below reads the tag literally, which is what the regular
  expression does for a tag of letters, digits and underscores (\<open>literal_tag\<close>).

  The matcher follows the backtracking search of Python's \<^verbatim>\<open>re\<close> module piece by piece:
  \<^item> \<open>ws_then_nl\<close> is \<^verbatim>\<open>\s*\n\<close>: the greedy star takes a whitespace character and goes
    on; when the rest fails it gives the character back and tries \<^verbatim>\<open>\n\<close> there;
  \<^item> \<open>lazy_to_blank\<close> is \<^verbatim>\<open>.*?\n\s*\n\<close>: the lazy star first tries to stop, and takes
    one more character (any character, newlines included) only when the rest fails;
  \<^item> \<open>match_at\<close> is the whole pattern tried at one position that \<^verbatim>\<open>^\<close> accepts; the
    result is the text left after the match;
  \<^item> \<open>findall_from\<close> is \<^verbatim>\<open>re.findall\<close>: positions are tried from left to right, a match
    is recorded and the search goes on after it, and \<open>bol\<close> tells whether the current
    position is the start of the text or follows a newline.
\<close>


definition is_word_char :: "char \<Rightarrow> bool" where
  "is_word_char c =
     (c \<in> set (''abcdefghijklmnopqrstuvwxyz'' @ ''ABCDEFGHIJKLMNOPQRSTUVWXYZ'' @ ''0123456789_''))"

definition literal_tag :: "string \<Rightarrow> bool" where
  "literal_tag item = list_all is_word_char item"

fun ws_then_nl :: "string \<Rightarrow> string option" where
  "ws_then_nl [] = None"
| "ws_then_nl (c # cs) =
     (if is_space c then
        (case ws_then_nl cs of
           Some r \<Rightarrow> Some r
         | None \<Rightarrow> (if c = NL then Some cs else None))
      else None)"

fun lazy_to_blank :: "string \<Rightarrow> string option" where
  "lazy_to_blank [] = None"
| "lazy_to_blank (c # cs) =
     (case (if c = NL then ws_then_nl cs else None) of
        Some r \<Rightarrow> Some r
      | None \<Rightarrow> lazy_to_blank cs)"

definition match_at :: "string \<Rightarrow> string \<Rightarrow> string option" where
  "match_at item s =
     (if prefix (CHR ''@'' # item) s then lazy_to_blank (drop (Suc (length item)) s) else None)"

text \<open>What a match looks like; in particular it is never empty, so the search ends.\<close>

lemma ws_then_nl_shape:
  "ws_then_nl s = Some r \<Longrightarrow> \<exists>w. s = w @ NL # r \<and> list_all is_space w"
proof (induction s)
  case Nil
  then show ?case by simp
next
  case (Cons c cs)
  show ?case
  proof (cases "ws_then_nl cs")
    case None
    with Cons.prems have "c = NL" "r = cs"
      by (auto split: if_splits)
    then have "c # cs = [] @ NL # r \<and> list_all is_space []" by simp
    then show ?thesis by blast
  next
    case (Some r')
    with Cons.prems have c: "is_space c" and r: "r' = r"
      by (auto split: if_splits)
    from Cons.IH Some r obtain w where "cs = w @ NL # r" "list_all is_space w" by auto
    with c have "c # cs = (c # w) @ NL # r \<and> list_all is_space (c # w)" by simp
    then show ?thesis by blast
  qed
qed

lemma lazy_to_blank_shape:
  "lazy_to_blank s = Some r \<Longrightarrow> \<exists>b w. s = b @ NL # w @ NL # r \<and> list_all is_space w"
proof (induction s)
  case Nil
  then show ?case by simp
next
  case (Cons c cs)
  show ?case
  proof (cases "c = NL \<and> ws_then_nl cs \<noteq> None")
    case True
    with Cons.prems have "ws_then_nl cs = Some r" by auto
    from ws_then_nl_shape [OF this] obtain w where "cs = w @ NL # r" "list_all is_space w" by auto
    with True have "c # cs = [] @ NL # w @ NL # r \<and> list_all is_space w" by simp
    then show ?thesis by blast
  next
    case False
    with Cons.prems have "lazy_to_blank cs = Some r" by (auto split: if_splits)
    from Cons.IH [OF this] obtain b w where "cs = b @ NL # w @ NL # r" "list_all is_space w" by auto
    then have "c # cs = (c # b) @ NL # w @ NL # r \<and> list_all is_space w" by simp
    then show ?thesis by blast
  qed
qed

lemma match_at_shape:
  assumes "match_at item s = Some r"
  shows "\<exists>b w. s = CHR ''@'' # item @ b @ NL # w @ NL # r \<and> list_all is_space w"
proof -
  from assms have p: "prefix (CHR ''@'' # item) s"
    and l: "lazy_to_blank (drop (Suc (length item)) s) = Some r"
    by (auto simp: match_at_def split: if_splits)
  from p obtain t where s: "s = (CHR ''@'' # item) @ t" by (auto simp: prefix_def)
  with l have "lazy_to_blank t = Some r" by simp
  from lazy_to_blank_shape [OF this] s show ?thesis by auto
qed

lemma match_at_shorter: "match_at item s = Some r \<Longrightarrow> length r < length s"
  by (drule match_at_shape) auto

function findall_from :: "string \<Rightarrow> bool \<Rightarrow> string \<Rightarrow> string list" where
  "findall_from item bol s =
     (case (if bol then match_at item s else None) of
        Some r \<Rightarrow> take (length s - length r) s # findall_from item True r
      | None \<Rightarrow> (case s of [] \<Rightarrow> [] | c # cs \<Rightarrow> findall_from item (c = NL) cs))"
  by pat_completeness auto
termination
  by (relation "measure (\<lambda>(item, bol, s). length s)")
     (auto dest: match_at_shorter split: if_splits)

declare findall_from.simps [simp del]

lemma match_at_Nil: "match_at item [] = None"
  by (simp add: match_at_def)

lemma findall_from_Nil: "findall_from item bol [] = []"
  by (subst findall_from.simps) (simp add: match_at_Nil)

lemma findall_from_skip:
  "(if bol then match_at item (c # cs) else None) = None \<Longrightarrow>
     findall_from item bol (c # cs) = findall_from item (c = NL) cs"
  by (subst findall_from.simps) simp

lemma findall_from_hit:
  "(if bol then match_at item s else None) = Some r \<Longrightarrow>
     findall_from item bol s = take (length s - length r) s # findall_from item True r"
  by (subst findall_from.simps) simp

text \<open>\<^verbatim>\<open>re.findall(pattern, doc)\<close> and the function itself.\<close>

definition findall :: "string \<Rightarrow> string \<Rightarrow> string list" where
  "findall item doc = findall_from item True doc"

definition extractItems :: "string \<Rightarrow> string \<Rightarrow> string list \<times> string" where
  "extractItems item doc =
     (let items = findall item doc;
          leftoverLines = foldl (\<lambda>acc i. replace_first i acc) doc items;
          result = map (\<lambda>i. drop (length item + 2) i) items
      in (result, leftoverLines))"




lemma replace_first_absent: "\<not> sublist m r \<Longrightarrow> replace_first m r = r"
  by (induction r) (auto simp: sublist_Cons_right)

lemma replace_first_leftmost:
  "sublist m r \<Longrightarrow>
     \<exists>pre post. r = pre @ m @ post \<and> replace_first m r = pre @ post
        \<and> (\<forall>pre' post'. r = pre' @ m @ post' \<longrightarrow> length pre \<le> length pre')"
proof (induction r)
  case Nil
  then have "m = []" by simp
  then have "[] = [] @ m @ [] \<and> replace_first m [] = [] @ []
       \<and> (\<forall>pre' post'. [] = pre' @ m @ post' \<longrightarrow> length ([]::string) \<le> length pre')"
    by simp
  then show ?case by blast
next
  case (Cons x xs)
  show ?case
  proof (cases "prefix m (x # xs)")
    case True
    then obtain post where p: "x # xs = m @ post" by (auto simp: prefix_def)
    from True have "replace_first m (x # xs) = drop (length m) (x # xs)" by simp
    with p have "replace_first m (x # xs) = post" by simp
    with p have "x # xs = [] @ m @ post \<and> replace_first m (x # xs) = [] @ post
       \<and> (\<forall>pre' post'. x # xs = pre' @ m @ post' \<longrightarrow> length ([]::string) \<le> length pre')"
      by simp
    then show ?thesis by blast
  next
    case False
    with Cons.prems have "sublist m xs" by (simp add: sublist_Cons_right)
    from Cons.IH [OF this] obtain pre post where
      xs: "xs = pre @ m @ post" and rf: "replace_first m xs = pre @ post"
      and least: "\<forall>pre' post'. xs = pre' @ m @ post' \<longrightarrow> length pre \<le> length pre'" by blast
    have "\<forall>pre' post'. x # xs = pre' @ m @ post' \<longrightarrow> length (x # pre) \<le> length pre'"
    proof (intro allI impI)
      fix pre' post' assume e: "x # xs = pre' @ m @ post'"
      show "length (x # pre) \<le> length pre'"
      proof (cases pre')
        case Nil
        with e have "prefix m (x # xs)" by (simp add: prefix_def)
        with False show ?thesis by simp
      next
        case (Cons y ys)
        with e have "xs = ys @ m @ post'" by simp
        with least have "length pre \<le> length ys" by blast
        with Cons show ?thesis by simp
      qed
    qed
    with xs rf False have "x # xs = (x # pre) @ m @ post \<and> replace_first m (x # xs) = (x # pre) @ post
       \<and> (\<forall>pre' post'. x # xs = pre' @ m @ post' \<longrightarrow> length (x # pre) \<le> length pre')"
      by simp
    then show ?thesis by blast
  qed
qed

lemma replace_first_keeps_suffix:
  "\<exists>y. replace_first m (x @ m @ r) = y @ r \<and> length y = length x"
proof -
  have "sublist m (x @ m @ r)" by (auto simp: sublist_def)
  from replace_first_leftmost [OF this] obtain pre post where
    e: "x @ m @ r = pre @ m @ post" and rf: "replace_first m (x @ m @ r) = pre @ post"
    and least: "\<forall>pre' post'. x @ m @ r = pre' @ m @ post' \<longrightarrow> length pre \<le> length pre'" by blast
  from least have le: "length pre \<le> length x" by blast
  from e have len: "length x + length r = length pre + length post"
    by (metis add_left_cancel length_append add.assoc add.left_commute)
  from e have "drop (length pre + length m + (length x - length pre)) (x @ m @ r)
             = drop (length pre + length m + (length x - length pre)) (pre @ m @ post)" by simp
  with le have "r = drop (length x - length pre) post" by simp
  then have "post = take (length x - length pre) post @ r" by (metis append_take_drop_id)
  moreover from len le have "length x - length pre \<le> length post" by arith
  ultimately have "replace_first m (x @ m @ r) = (pre @ take (length x - length pre) post) @ r
      \<and> length (pre @ take (length x - length pre) post) = length x"
    using rf le by auto
  then show ?thesis by blast
qed

lemma foldl_replace_first_length:
  "length (foldl (\<lambda>acc i. replace_first i acc) (x @ s) (findall_from item bol s))
     + sum_list (map length (findall_from item bol s)) = length x + length s"
proof (induction item bol s arbitrary: x rule: findall_from.induct)
  case (1 item bol s)
  show ?case
  proof (cases "if bol then match_at item s else None")
    case None
    show ?thesis
    proof (cases s)
      case Nil
      then show ?thesis by (simp add: findall_from_Nil)
    next
      case (Cons c cs)
      from None have "(if bol then match_at item (c # cs) else None) = None" unfolding Cons .
      from findall_from_skip [OF this] "1.IH"(1) [OF None Cons, of "x @ [c]"] Cons show ?thesis
        by simp
    qed
  next
    case (Some r)
    then have ma: "match_at item s = Some r" by (simp split: if_splits)
    from match_at_shape [OF ma] obtain t where s: "s = t @ r" by auto
    then have t: "take (length s - length r) s = t" by simp
    from replace_first_keeps_suffix [of t x r] obtain y where
      y: "replace_first t (x @ t @ r) = y @ r" "length y = length x" by blast
    have fa: "findall_from item bol s = t # findall_from item True r"
      using findall_from_hit [OF Some] t by simp
    from "1.IH"(2) [OF Some, of y] y show ?thesis
      unfolding fa by (simp add: s)
  qed
qed


section \<open>Block extractor: one block, no block\<close>












section \<open>Block extractor: the residual text\<close>

text \<open>
  C3. For a tag read literally and any text, the residual is built from the text by
  removing the matched chunks one after the other, in the order the matches were found.
  Each removal of a chunk that occurs in the current residual deletes its leftmost
  textual occurrence there (no occurrence starts further left), and leaves the residual
  unchanged when the chunk does not occur. Every chunk is removed exactly once: the
  residual is shorter than the text by the total length of the chunks.
\<close>

theorem extractItems_residual:
  assumes "literal_tag item"
  shows "snd (extractItems item text)
           = foldl (\<lambda>r m. replace_first m r) text (findall item text)
       \<and> (\<forall>m r. sublist m r \<longrightarrow>
             (\<exists>pre post. r = pre @ m @ post \<and> replace_first m r = pre @ post
                \<and> (\<forall>pre' post'. r = pre' @ m @ post' \<longrightarrow> length pre \<le> length pre')))
       \<and> (\<forall>m r. \<not> sublist m r \<longrightarrow> replace_first m r = r)
       \<and> length (snd (extractItems item text))
            + sum_list (map length (findall item text)) = length text"
proof (intro conjI allI impI)
  show "snd (extractItems item text)
           = foldl (\<lambda>r m. replace_first m r) text (findall item text)"
    by (simp add: extractItems_def Let_def)
next
  fix m r :: string
  assume "sublist m r"
  then show "\<exists>pre post. r = pre @ m @ post \<and> replace_first m r = pre @ post
                \<and> (\<forall>pre' post'. r = pre' @ m @ post' \<longrightarrow> length pre \<le> length pre')"
    by (rule replace_first_leftmost)
next
  fix m r :: string
  assume "\<not> sublist m r"
  then show "replace_first m r = r"
    by (rule replace_first_absent)
next
  from foldl_replace_first_length [of "[]" "text" item True]
  show "length (snd (extractItems item text))
            + sum_list (map length (findall item text)) = length text"
    by (simp add: extractItems_def findall_def Let_def)
qed

text \<open>
  The removal is textual, not by position: here the only match is the second
  \<^verbatim>\<open>@param a\<close> (the first does not start a line), and the copy that is deleted is the
  first one.
\<close>

lemma extractItems_textual_copy_example:
  "extractItems ''param''
       (''x@param a'' @ [NL, NL] @ ''foo'' @ [NL] @ ''@param a'' @ [NL, NL])
     = ([''a'' @ [NL, NL]], ''xfoo'' @ [NL] @ ''@param a'' @ [NL, NL])"
  by (simp add: extractItems_def findall_def findall_from_Nil findall_from_skip findall_from_hit
        match_at_def is_space_def)

theorem extractItems_residual_witness:
  "literal_tag ''param''
   \<and> sublist ''ab'' ''xabyab''
   \<and> (\<exists>pre post. ''xabyab'' = pre @ ''ab'' @ post \<and> replace_first ''ab'' ''xabyab'' = pre @ post
          \<and> (\<forall>pre' post'. ''xabyab'' = pre' @ ''ab'' @ post' \<longrightarrow> length pre \<le> length pre'))
   \<and> \<not> sublist ''ab'' ''xyz'' \<and> replace_first ''ab'' ''xyz'' = ''xyz''
   \<and> snd (extractItems ''param'' ''xyz'')
           = foldl (\<lambda>r m. replace_first m r) ''xyz'' (findall ''param'' ''xyz'')"
proof -
  have lt: "literal_tag ''param''"
    by (simp add: literal_tag_def is_word_char_def)
  have s1: "sublist ''ab'' ''xabyab''" by (simp add: sublist_Cons_right)
  have s2: "\<not> sublist ''ab'' ''xyz''" by (simp add: sublist_Cons_right)
  from extractItems_residual [OF lt, of "''xyz''"] lt s1 s2 show ?thesis by blast
qed

section \<open>Comment-block parser\<close>

text \<open>
  Exceptions that the script can raise and never catches are values: \<open>SystemExit n\<close> is
  \<^verbatim>\<open>sys.exit(n)\<close>, \<open>IndexError\<close> an index out of range, \<open>KeyError k\<close> a missing dictionary
  key, \<open>IOError p\<close> a file or resource that cannot be opened.
\<close>

datatype py_error = SystemExit nat | IndexError | KeyError string | IOError string

text \<open>
  A function record is the tuple
  \<^verbatim>\<open>(moduleName, funcName, funcDefinition, description, params, retvals, notices)\<close>,
  and \<^verbatim>\<open>MODULES\<close> is a dictionary from module names to lists of records. The dictionary is
  an association list in insertion order; Python 2 iterates a dictionary in an order of its
  own, which only matters for the order in which pages are written.
\<close>

type_synonym funcrec =
  "string \<times> string \<times> string \<times> string \<times> (string \<times> string) list \<times> (string \<times> string) list \<times> string list"

type_synonym registry = "(string \<times> funcrec list) list"


text \<open>
  Lines 144 to 151 of the script: \<^verbatim>\<open>funcName = funcDefinition.split("(")[0]\<close>, then
  \<^verbatim>\<open>moduleName, funcName = funcName.split(".")\<close> inside \<^verbatim>\<open>try ... except: pass\<close>. The
  unpacking raises unless the split has exactly two parts, and then both names keep their
  earlier values.
\<close>

definition module_and_name :: "string \<Rightarrow> string \<times> string" where
  "module_and_name funcDefinition =
     (let funcName = hd (split_char (CHR ''('') funcDefinition)
      in (case split_char (CHR ''.'') funcName of
            [moduleName, funcName'] \<Rightarrow> (moduleName, funcName')
          | _ \<Rightarrow> (''general'', funcName)))"

text \<open>
  \<^verbatim>\<open>parseFunction(doc)\<close>, in two steps: the record it builds (\<^verbatim>\<open>functions[0]\<close> raises
  \<open>IndexError\<close> when no declaration is found), and its registration in \<^verbatim>\<open>MODULES\<close>.
  Debug output (\<^verbatim>\<open>logDebug\<close>, printed only with \<^verbatim>\<open>--debug\<close>) is left out throughout.
\<close>

definition functionObject_of :: "string \<Rightarrow> py_error + funcrec" where
  "functionObject_of doc =
     (let (functions, lines0) = extractItems ''function'' (doc @ [NL])
      in (case functions of
            [] \<Rightarrow> Inl IndexError
          | funcDefinition # _ \<Rightarrow>
              (let (moduleName, funcName) = module_and_name funcDefinition;
                   (params, lines1) = extractItems ''param'' lines0;
                   (retvals, lines2) = extractItems ''retval'' lines1;
                   (notices, lines3) = extractItems ''notice'' lines2;
                   description = lines3
               in Inr (moduleName, funcName, funcDefinition, description,
                       parseParameters params, parseParameters retvals, notices))))"



lemma length_split_char: "length (split_char c s) = Suc (count_list s c)"
  using split_char_not_Nil [of c]
  by (induction s) (auto split: list.splits)

lemma count_list_takeWhile_0: "count_list (takeWhile (\<lambda>x. x \<noteq> c) s) c = 0"
  by (induction s) auto

lemma module_and_name_cases:
  "module_and_name decl =
     (let name = takeWhile (\<lambda>c. c \<noteq> CHR ''('') decl
      in if count_list name (CHR ''.'') = 1
         then (takeWhile (\<lambda>c. c \<noteq> CHR ''.'') name, drop 1 (dropWhile (\<lambda>c. c \<noteq> CHR ''.'') name))
         else (''general'', name))"
proof -
  define name where "name = takeWhile (\<lambda>c. c \<noteq> CHR ''('') decl"
  have hd: "hd (split_char (CHR ''('') decl) = name"
    by (simp add: name_def hd_split_char)
  show ?thesis
  proof (cases "count_list name (CHR ''.'') = 1")
    case True
    then have "length (split_char (CHR ''.'') name) = 2"
      by (simp add: length_split_char)
    then obtain a b where ab: "split_char (CHR ''.'') name = [a, b]"
      by (cases "split_char (CHR ''.'') name" rule: list.exhaust)
         (auto simp: length_Suc_conv)
    from ab hd_split_char [of "CHR ''.''" name]
    have a: "a = takeWhile (\<lambda>c. c \<noteq> CHR ''.'') name" by simp
    from ab join_tl_split_char [of "CHR ''.''" name]
    have b: "b = drop 1 (dropWhile (\<lambda>c. c \<noteq> CHR ''.'') name)" by simp
    from True ab a b hd show ?thesis
      by (simp add: module_and_name_def Let_def name_def [symmetric])
  next
    case False
    then have "length (split_char (CHR ''.'') name) \<noteq> 2"
      by (simp add: length_split_char)
    then have "(case split_char (CHR ''.'') name of
                  [moduleName, funcName'] \<Rightarrow> (moduleName, funcName')
                | _ \<Rightarrow> (''general'', name)) = (''general'', name)"
      by (auto split: list.splits)
    with False hd show ?thesis
      by (simp add: module_and_name_def Let_def name_def [symmetric])
  qed
qed

section \<open>Comment-block parser: module and function name\<close>

text \<open>
  C1, as amended. For every function block that parses (a declaration is found), let the
  name be the declaration text before its first \<^verbatim>\<open>(\<close>. When the name holds exactly one
  \<^verbatim>\<open>.\<close>, it is split there: the name is \<open>moduleName . funcName\<close> and neither part holds a
  dot. Otherwise (no dot, or two and more) \<open>moduleName\<close> is \<^verbatim>\<open>general\<close> and \<open>funcName\<close>
  is the whole name.
\<close>

theorem functionObject_module_name:
  assumes "functionObject_of doc =
             Inr (moduleName, funcName, funcDefinition, description, params, retvals, notices)"
  shows "fst (extractItems ''function'' (doc @ [NL])) \<noteq> []
       \<and> funcDefinition = hd (fst (extractItems ''function'' (doc @ [NL])))
       \<and> (count_list (takeWhile (\<lambda>c. c \<noteq> CHR ''('') funcDefinition) (CHR ''.'') = 1 \<longrightarrow>
             takeWhile (\<lambda>c. c \<noteq> CHR ''('') funcDefinition = moduleName @ ''.'' @ funcName
           \<and> CHR ''.'' \<notin> set moduleName \<and> CHR ''.'' \<notin> set funcName)
       \<and> (count_list (takeWhile (\<lambda>c. c \<noteq> CHR ''('') funcDefinition) (CHR ''.'') \<noteq> 1 \<longrightarrow>
             moduleName = ''general''
           \<and> funcName = takeWhile (\<lambda>c. c \<noteq> CHR ''('') funcDefinition)"
proof -
  define name where "name = takeWhile (\<lambda>c. c \<noteq> CHR ''('') funcDefinition"
  obtain decls lines0 where ex: "extractItems ''function'' (doc @ [NL]) = (decls, lines0)"
    by (cases "extractItems ''function'' (doc @ [NL])")
  with assms have ne: "decls \<noteq> []"
    by (auto simp: functionObject_of_def)
  then obtain d ds where fs: "decls = d # ds" by (cases decls) auto
  from assms ex fs have d: "d = funcDefinition" and mn: "module_and_name d = (moduleName, funcName)"
    by (auto simp: functionObject_of_def Let_def split: prod.splits)
  from mn d have cases: "(moduleName, funcName) =
      (if count_list name (CHR ''.'') = 1
         then (takeWhile (\<lambda>c. c \<noteq> CHR ''.'') name, drop 1 (dropWhile (\<lambda>c. c \<noteq> CHR ''.'') name))
         else (''general'', name))"
    by (auto simp: module_and_name_cases Let_def name_def split: if_splits)
  have one: "takeWhile (\<lambda>c. c \<noteq> CHR ''('') funcDefinition = moduleName @ ''.'' @ funcName
           \<and> CHR ''.'' \<notin> set moduleName \<and> CHR ''.'' \<notin> set funcName"
    if c1: "count_list name (CHR ''.'') = 1"
  proof -
    from cases c1 have m: "moduleName = takeWhile (\<lambda>c. c \<noteq> CHR ''.'') name"
      and f: "funcName = drop 1 (dropWhile (\<lambda>c. c \<noteq> CHR ''.'') name)" by simp_all
    from c1 have "CHR ''.'' \<in> set name"
      by (metis count_list_0_iff zero_neq_one)
    then have "dropWhile (\<lambda>c. c \<noteq> CHR ''.'') name \<noteq> []" by simp
    moreover have "hd (dropWhile (\<lambda>c. c \<noteq> CHR ''.'') name) = CHR ''.''"
      using calculation hd_dropWhile [of "\<lambda>c. c \<noteq> CHR ''.''" name] by simp
    ultimately have dw: "dropWhile (\<lambda>c. c \<noteq> CHR ''.'') name = CHR ''.'' # funcName"
      using f by (cases "dropWhile (\<lambda>c. c \<noteq> CHR ''.'') name") auto
    have split: "name = moduleName @ CHR ''.'' # funcName"
      using takeWhile_dropWhile_id [of "\<lambda>c. c \<noteq> CHR ''.''" name] m dw by simp
    have nm: "CHR ''.'' \<notin> set moduleName"
      using m by (metis (mono_tags, lifting) set_takeWhileD)
    from c1 split have "count_list moduleName (CHR ''.'') + 1 + count_list funcName (CHR ''.'') = 1"
      by simp
    then have "count_list funcName (CHR ''.'') = 0" by simp
    then have "CHR ''.'' \<notin> set funcName" by (simp add: count_list_0_iff)
    with split nm show ?thesis by (simp add: name_def)
  qed
  from cases have other: "count_list name (CHR ''.'') \<noteq> 1 \<longrightarrow> moduleName = ''general'' \<and> funcName = name"
    by (auto split: if_splits)
  from ex fs d one other show ?thesis
    by (simp add: name_def)
qed


lemmas run_extract =
  functionObject_of_def extractItems_def findall_def findall_from_Nil findall_from_skip
  findall_from_hit match_at_def is_space_def module_and_name_def Let_def

lemma functionObject_example_lcd:
  "functionObject_of (''@function lcd.drawText(x)'' @ [NL])
     = Inr (''lcd'', ''drawText'', ''lcd.drawText(x)'' @ [NL, NL], [], [], [], [])"
  by (simp add: run_extract)

lemma functionObject_example_plain:
  "functionObject_of (''@function getVersion()'' @ [NL])
     = Inr (''general'', ''getVersion'', ''getVersion()'' @ [NL, NL], [], [], [], [])"
  by (simp add: run_extract)

theorem functionObject_module_name_witness:
  "functionObject_of (''@function lcd.drawText(x)'' @ [NL])
     = Inr (''lcd'', ''drawText'', ''lcd.drawText(x)'' @ [NL, NL], [], [], [], [])
   \<and> count_list (takeWhile (\<lambda>c. c \<noteq> CHR ''('') (''lcd.drawText(x)'' @ [NL, NL])) (CHR ''.'') = 1
   \<and> takeWhile (\<lambda>c. c \<noteq> CHR ''('') (''lcd.drawText(x)'' @ [NL, NL]) = ''lcd'' @ ''.'' @ ''drawText''
   \<and> functionObject_of (''@function getVersion()'' @ [NL])
     = Inr (''general'', ''getVersion'', ''getVersion()'' @ [NL, NL], [], [], [], [])
   \<and> count_list (takeWhile (\<lambda>c. c \<noteq> CHR ''('') (''getVersion()'' @ [NL, NL])) (CHR ''.'') \<noteq> 1
   \<and> ''getVersion'' = takeWhile (\<lambda>c. c \<noteq> CHR ''('') (''getVersion()'' @ [NL, NL])"
  using functionObject_module_name [OF functionObject_example_lcd]
        functionObject_module_name [OF functionObject_example_plain]
        functionObject_example_lcd functionObject_example_plain
  by simp

text \<open>
  C1 as stated fails: the declaration \<^verbatim>\<open>a.b.c(x)\<close> holds a dot before its first
  \<^verbatim>\<open>(\<close>, and its module name is \<^verbatim>\<open>general\<close> all the same.
\<close>

theorem functionObject_two_dots_counterexample:
  "functionObject_of (''@function a.b.c(x)'' @ [NL])
     = Inr (''general'', ''a.b.c'', ''a.b.c(x)'' @ [NL, NL], [], [], [], [])
   \<and> CHR ''.'' \<in> set (hd (split_char (CHR ''('') (''a.b.c(x)'' @ [NL, NL])))"
  by (simp add: run_extract)

text \<open>
  The state of a run: the registry, what was printed (one entry per \<^verbatim>\<open>print\<close>), the
  files of the working directory and the remote resources that \<^verbatim>\<open>urllib2.urlopen\<close> can
  fetch. A run or a step of it ends in an \<open>outcome\<close>: the exception that ended it, if
  any, and the state at that moment.
\<close>

record world =
  MODULES :: registry
  stdout :: "string list"
  files :: "string \<rightharpoonup> string"
  remote :: "string \<rightharpoonup> string"

type_synonym outcome = "py_error option \<times> world"

definition logInfo :: "string \<Rightarrow> world \<Rightarrow> world" where
  "logInfo txt w = w\<lparr>stdout := stdout w @ [''Info: '' @ txt]\<rparr>"







section \<open>Source scanner\<close>














section \<open>Function doc renderer\<close>

text \<open>\<^verbatim>\<open>s.replace(old, new)\<close> for \<open>old\<close> of one character.\<close>

definition replace_char :: "char \<Rightarrow> string \<Rightarrow> string \<Rightarrow> string" where
  "replace_char old new s = concat (map (\<lambda>c. if c = old then new else [c]) s)"


definition STARTMARKER :: string where
  "STARTMARKER = ''[//]: <> (LUADOC-BEGIN:''"

definition ENDMARKER :: string where
  "ENDMARKER = ''[//]: <> (LUADOC-END:''"



definition DOCBASE :: string where
  "DOCBASE = ''https://raw.githubusercontent.com/opentx/lua-reference-guide/master/''"

text \<open>
  \<^verbatim>\<open>byExtension_key(example)\<close> on \<^verbatim>\<open>example = x.split(".")\<close>, and
  \<^verbatim>\<open>sorted([x.split(".") for x in examples], key = byExtension_key)\<close>: the keys are computed
  for every element (an element with fewer than two parts raises \<open>IndexError\<close>), then the
  list is sorted by key, stably.
\<close>

definition byExtension_key :: "string list \<Rightarrow> py_error + string" where
  "byExtension_key example =
     (case example of
        e0 # e1 # _ \<Rightarrow>
          Inr (e0 @ (if e1 = ''lua'' then ''.1'' else if e1 = ''png'' then ''.2'' else ''.0''))
      | _ \<Rightarrow> Inl IndexError)"

definition key_of :: "string list \<Rightarrow> string" where
  "key_of example = (case byExtension_key example of Inr k \<Rightarrow> k | Inl _ \<Rightarrow> [])"

definition sorted_examples :: "string list \<Rightarrow> py_error + string list list" where
  "sorted_examples examples =
     (let parts = map (split_char (CHR ''.'')) examples
      in if list_all (\<lambda>x. 2 \<le> length x) parts
         then Inr (sort_key key_of parts)
         else Inl IndexError)"

definition basename :: "string \<Rightarrow> string" where
  "basename p = last (split_char (CHR ''/'') p)"

text \<open>
  The body of the loop of \<^verbatim>\<open>addExamples\<close> for one example whose file was opened and
  holds \<open>content\<close>, then the loop (\<^verbatim>\<open>open\<close> raises \<open>IOError\<close> for a missing file), then
  the function. \<^verbatim>\<open>glob.glob\<close> is a function of the host: it is a parameter, given the
  files and the pattern, and its result may come in any order.
\<close>

definition example_text :: "string list \<Rightarrow> string \<Rightarrow> string \<Rightarrow> string" where
  "example_text example content doc0 =
     (let e0 = example ! 0; e1 = example ! 1;
          fileName = e0 @ ''.'' @ e1;
          doc1 = (if e1 = ''md'' then doc0 @ content @ [NL, NL] else doc0);
          doc2 = (if e1 = ''lua''
                  then (let d = doc1 @ ''<a class=\"dlbtn\" href=\"'' @ DOCBASE
                                  @ replace_char (CHR 0x5C) ''/'' fileName @ ''\">''
                                  @ replace_char (CHR 0x5C) ''/'' e0 @ ''</a>'' @ [NL, NL]
                                  @ ''```lua'' @ [NL] @ content;
                            d' = (if last d \<noteq> NL then d @ [NL] else d)
                        in d' @ ''```'' @ [NL, NL])
                  else doc1);
          doc3 = (if e1 = ''png''
                  then doc2 @ ''![]('' @ basename fileName @ '')'' @ [NL, NL]
                  else doc2)
      in doc3)"

fun examples_loop :: "string list list \<Rightarrow> string \<Rightarrow> world \<Rightarrow> (py_error + string) \<times> world" where
  "examples_loop [] doc w = (Inr doc, w)"
| "examples_loop (example # rest) doc w =
     (let fileName = example ! 0 @ ''.'' @ example ! 1;
          w1 = logInfo (''Adding contents of example '' @ fileName) w
      in (case files w1 fileName of
            None \<Rightarrow> (Inl (IOError fileName), w1)
          | Some content \<Rightarrow> examples_loop rest (example_text example content doc) w1))"

definition addExamples ::
  "((string \<rightharpoonup> string) \<Rightarrow> string \<Rightarrow> string list) \<Rightarrow> string \<Rightarrow> string \<Rightarrow> world
     \<Rightarrow> (py_error + string) \<times> world" where
  "addExamples glob moduleName funcName w =
     (let examplePattern = moduleName @ ''/'' @ funcName @ ''-example*.*'';
          examples = glob (files w) examplePattern
      in if length examples > 0
         then (case sorted_examples examples of
                 Inl e \<Rightarrow> (Inl e, w)
               | Inr examples' \<Rightarrow>
                   examples_loop examples' ([NL, NL] @ ''---'' @ [NL, NL] @ ''### Examples'' @ [NL, NL]) w)
         else (Inr [], w))"



section \<open>Index updater\<close>

text \<open>\<^verbatim>\<open>s.capitalize()\<close> on a byte string: ASCII letters only.\<close>

definition lower_char :: "char \<Rightarrow> char" where
  "lower_char c =
     (case map_of (zip ''ABCDEFGHIJKLMNOPQRSTUVWXYZ'' ''abcdefghijklmnopqrstuvwxyz'') c of
        Some l \<Rightarrow> l | None \<Rightarrow> c)"

definition upper_char :: "char \<Rightarrow> char" where
  "upper_char c =
     (case map_of (zip ''abcdefghijklmnopqrstuvwxyz'' ''ABCDEFGHIJKLMNOPQRSTUVWXYZ'') c of
        Some u \<Rightarrow> u | None \<Rightarrow> c)"

definition capitalize :: "string \<Rightarrow> string" where
  "capitalize s = (case s of [] \<Rightarrow> [] | c # cs \<Rightarrow> upper_char c # map lower_char cs)"

text \<open>
  The lines \<^verbatim>\<open>insertSection\<close> formats, and the function. \<^verbatim>\<open>os.path.isfile\<close> is a
  lookup in the files; \<open>now\<close> is the formatted reading of the clock;
  \<^verbatim>\<open>MODULES[sectionName]\<close> raises \<open>KeyError\<close> for a missing key, after the first lines
  were appended; \<^verbatim>\<open>newContents[-1] = ...\<close> replaces the last element of the list.
\<close>

definition start_line :: "string \<Rightarrow> string" where
  "start_line sectionName =
     ''   * ['' @ capitalize sectionName @ '' Functions]('' @ sectionName @ ''/'' @ sectionName
       @ ''_functions.md) '' @ STARTMARKER @ sectionName @ '')'' @ [NL]"

definition overview_line :: "string \<Rightarrow> string" where
  "overview_line sectionName =
     ''      * ['' @ capitalize sectionName @ '' Functions Overview]('' @ sectionName @ ''/''
       @ sectionName @ ''_functions-overview.md)'' @ [NL]"

definition function_line :: "string \<Rightarrow> funcrec \<Rightarrow> string" where
  "function_line sectionName f =
     (case f of (moduleName, funcName, funcDefinition, rest) \<Rightarrow>
        ''      * ['' @ py_rstrip_ws funcDefinition @ '']('' @ sectionName @ ''/'' @ funcName
          @ ''.md)'' @ [NL])"

definition close_line :: "string \<Rightarrow> string \<Rightarrow> string" where
  "close_line sectionName l = py_rstrip_ws l @ '' '' @ ENDMARKER @ sectionName @ '')'' @ [NL]"

definition insertSection ::
  "registry \<Rightarrow> (string \<rightharpoonup> string) \<Rightarrow> string \<Rightarrow> string list \<Rightarrow> string
     \<Rightarrow> py_error + string list" where
  "insertSection MODS fs now newContents sectionName =
     (if sectionName = ''timestamp'' then
        Inr (newContents
             @ [STARTMARKER @ sectionName @ '')'' @ [NL]]
             @ [''<div class=\"footer\">last updated on '' @ now @ ''</div>'' @ [NL]]
             @ [ENDMARKER @ sectionName @ '')'' @ [NL]])
      else
        (let nc1 = newContents @ [start_line sectionName];
             overviewFileName = sectionName @ ''/'' @ sectionName @ ''_functions-overview.md'';
             nc2 = (if fs overviewFileName \<noteq> None then nc1 @ [overview_line sectionName] else nc1)
         in (case map_of MODS sectionName of
               None \<Rightarrow> Inl (KeyError sectionName)
             | Some funcs \<Rightarrow>
                 (let nc3 = nc2 @ map (function_line sectionName) (sort funcs)
                  in Inr (nc3[length nc3 - 1 := close_line sectionName (nc3 ! (length nc3 - 1))])))))"


text \<open>
  \<^verbatim>\<open>s.split(sep)\<close> for a separator of several characters (Python raises on an empty
  one; the script never passes one), and \<^verbatim>\<open>data.readlines()\<close>.
\<close>

lemma py_find_Some_nonempty: "py_find sep s = Some i \<Longrightarrow> sep \<noteq> [] \<Longrightarrow> s \<noteq> []"
  by (cases s) auto

function split_str :: "string \<Rightarrow> string \<Rightarrow> string list" where
  "split_str sep s =
     (if sep = [] then [s]
      else (case py_find sep s of
              None \<Rightarrow> [s]
            | Some i \<Rightarrow> take i s # split_str sep (drop (i + length sep) s)))"
  by pat_completeness auto
termination
  by (relation "measure (\<lambda>(sep, s). length s)") (auto dest: py_find_Some_nonempty)

declare split_str.simps [simp del]

fun readlines :: "string \<Rightarrow> string list" where
  "readlines [] = []"
| "readlines (c # cs) =
     (if c = NL then [c] # readlines cs
      else (case readlines cs of
              [] \<Rightarrow> [[c]]
            | l # ls \<Rightarrow> (c # l) # ls))"

text \<open>
  \<^verbatim>\<open>replaceSections(fileName)\<close>: \<^verbatim>\<open>line.split(ENDMARKER)[1].split(")")[0]\<close> names the
  section; the loop over the lines; the function, which writes the file only after the loop
  has ended without exception. \<open>clock k\<close> is the reading of the clock for the \<open>k\<close>-th
  timestamp section of the call.
\<close>

definition section_name :: "string \<Rightarrow> string" where
  "section_name line = hd (split_char (CHR '')'') (split_str ENDMARKER line ! 1))"

lemma split_str_miss: "py_find sep s = None \<Longrightarrow> split_str sep s = [s]"
  by (subst split_str.simps) simp

lemma split_str_hit:
  "sep \<noteq> [] \<Longrightarrow> py_find sep s = Some i \<Longrightarrow>
     split_str sep s = take i s # split_str sep (drop (i + length sep) s)"
  by (subst split_str.simps) simp

lemmas run_section_name = section_name_def split_str_hit split_str_miss STARTMARKER_def ENDMARKER_def

fun replace_loop ::
  "registry \<Rightarrow> (string \<rightharpoonup> string) \<Rightarrow> (nat \<Rightarrow> string) \<Rightarrow> nat \<Rightarrow> string list \<Rightarrow> string list
     \<Rightarrow> bool \<Rightarrow> py_error + string list" where
  "replace_loop MODS fs clock k [] newContents ignoreLine = Inr newContents"
| "replace_loop MODS fs clock k (line # rest) newContents ignoreLine =
     (if py_find STARTMARKER line \<noteq> None then
        replace_loop MODS fs clock k rest newContents True
      else if py_find ENDMARKER line \<noteq> None then
        (let sectionName = section_name line
         in (case insertSection MODS fs (clock k) newContents sectionName of
               Inl e \<Rightarrow> Inl e
             | Inr newContents' \<Rightarrow>
                 replace_loop MODS fs clock (if sectionName = ''timestamp'' then Suc k else k)
                   rest newContents' False))
      else if \<not> ignoreLine then
        replace_loop MODS fs clock k rest (newContents @ [line]) ignoreLine
      else replace_loop MODS fs clock k rest newContents ignoreLine)"

definition replaceSections :: "(nat \<Rightarrow> string) \<Rightarrow> string \<Rightarrow> world \<Rightarrow> outcome" where
  "replaceSections clock fileName w =
     (case files w fileName of
        None \<Rightarrow> (Some (IOError fileName), w)
      | Some data \<Rightarrow>
          (case replace_loop (MODULES w) (files w) clock 0 (readlines data) [] False of
             Inl e \<Rightarrow> (Some e, w)
           | Inr newContents \<Rightarrow>
               (None, logInfo (''generated '' @ fileName)
                        (w\<lparr>files := (files w)(fileName \<mapsto> concat newContents)\<rparr>))))"

section \<open>The run of the script\<close>








section \<open>Comment-block parser: the missing content type\<close>






section \<open>Index updater: a module section\<close>

text \<open>The lines of a module section before the end marker is appended to the last one.\<close>

definition section_lines :: "(string \<rightharpoonup> string) \<Rightarrow> string \<Rightarrow> funcrec list \<Rightarrow> string list" where
  "section_lines fs sectionName funcs =
     start_line sectionName
     # (if fs (sectionName @ ''/'' @ sectionName @ ''_functions-overview.md'') \<noteq> None
        then [overview_line sectionName] else [])
     @ map (function_line sectionName) (sort funcs)"


lemma update_last_append:
  "xs \<noteq> [] \<Longrightarrow>
     (ys @ xs)[length (ys @ xs) - 1 := f ((ys @ xs) ! (length (ys @ xs) - 1))]
       = ys @ butlast xs @ [f (last xs)]"
proof -
  assume ne: "xs \<noteq> []"
  then have xs: "xs = butlast xs @ [last xs]" by simp
  have len: "length (ys @ xs) - 1 = length (ys @ butlast xs)"
    using ne by (simp add: Suc_leI)
  have "(ys @ xs) = (ys @ butlast xs) @ [last xs]" using xs by simp
  then have nth: "(ys @ xs) ! (length (ys @ xs) - 1) = last xs"
    by (metis len nth_append_length)
  have "(ys @ xs)[length (ys @ xs) - 1 := f (last xs)]
          = ((ys @ butlast xs) @ [last xs])[length (ys @ butlast xs) := f (last xs)]"
    using xs len by simp
  also have "\<dots> = (ys @ butlast xs) @ [f (last xs)]"
    by (simp only: list_update_length)
  finally show ?thesis using nth by simp
qed

lemma insertSection_module_shape:
  assumes "sectionName \<noteq> ''timestamp''" and "map_of MODS sectionName = Some funcs"
  shows "insertSection MODS fs now newContents sectionName =
           Inr (newContents
                @ butlast (section_lines fs sectionName funcs)
                @ [py_rstrip_ws (last (section_lines fs sectionName funcs))
                     @ '' '' @ ENDMARKER @ sectionName @ '')'' @ [NL]])"
proof -
  let ?L = "section_lines fs sectionName funcs"
  have ne: "?L \<noteq> []" by (simp add: section_lines_def)
  define X where "X =
     (if fs (sectionName @ ''/'' @ sectionName @ ''_functions-overview.md'') \<noteq> None
      then (newContents @ [start_line sectionName]) @ [overview_line sectionName]
      else newContents @ [start_line sectionName])
     @ map (function_line sectionName) (sort funcs)"
  have raw: "insertSection MODS fs now newContents sectionName =
          (let nc3 = (if fs (sectionName @ ''/'' @ sectionName @ ''_functions-overview.md'') \<noteq> None
                      then (newContents @ [start_line sectionName]) @ [overview_line sectionName]
                      else newContents @ [start_line sectionName])
                     @ map (function_line sectionName) (sort funcs)
           in Inr (nc3[length nc3 - 1 := close_line sectionName (nc3 ! (length nc3 - 1))]))"
    using assms by (simp add: insertSection_def Let_def)
  have "insertSection MODS fs now newContents sectionName =
          Inr (X[length X - 1 := close_line sectionName (X ! (length X - 1))])"
    using raw unfolding Let_def X_def .
  moreover have "X = newContents @ ?L"
    by (simp add: X_def section_lines_def)
  ultimately have "insertSection MODS fs now newContents sectionName =
          Inr ((newContents @ ?L)[length (newContents @ ?L) - 1 :=
                 close_line sectionName ((newContents @ ?L) ! (length (newContents @ ?L) - 1))])"
    by (simp only:)
  also have "\<dots> = Inr (newContents @ butlast ?L @ [close_line sectionName (last ?L)])"
    using update_last_append [OF ne, of newContents "close_line sectionName"] by simp
  finally show ?thesis
    by (simp add: close_line_def)
qed

text \<open>
  C6. For a section whose identifier is a module of the registry, the updater appends: the
  line linking to the module's listing page, which carries the start marker; the line
  linking to the overview page when that file exists; one line per function record of the
  module, sorted by the order of the tuples. The end marker is appended to the last of
  these lines, after its trailing whitespace is removed, on the same line; no line of its
  own is added for it.
\<close>

theorem insertSection_module:
  assumes "sectionName \<noteq> ''timestamp''" and "map_of MODS sectionName = Some funcs"
  shows "insertSection MODS fs now newContents sectionName =
           Inr (newContents
                @ butlast (section_lines fs sectionName funcs)
                @ [py_rstrip_ws (last (section_lines fs sectionName funcs))
                     @ '' '' @ ENDMARKER @ sectionName @ '')'' @ [NL]])
       \<and> section_lines fs sectionName funcs =
           (''   * ['' @ capitalize sectionName @ '' Functions]('' @ sectionName @ ''/'' @ sectionName
               @ ''_functions.md) '' @ STARTMARKER @ sectionName @ '')'' @ [NL])
           # (if fs (sectionName @ ''/'' @ sectionName @ ''_functions-overview.md'') \<noteq> None
              then [''      * ['' @ capitalize sectionName @ '' Functions Overview]('' @ sectionName
                      @ ''/'' @ sectionName @ ''_functions-overview.md)'' @ [NL]]
              else [])
           @ map (\<lambda>f. ''      * ['' @ py_rstrip_ws (fst (snd (snd f))) @ '']('' @ sectionName @ ''/''
                        @ fst (snd f) @ ''.md)'' @ [NL]) (sort funcs)"
proof
  show "insertSection MODS fs now newContents sectionName =
           Inr (newContents
                @ butlast (section_lines fs sectionName funcs)
                @ [py_rstrip_ws (last (section_lines fs sectionName funcs))
                     @ '' '' @ ENDMARKER @ sectionName @ '')'' @ [NL]])"
    using assms by (rule insertSection_module_shape)
next
  have "function_line sectionName = (\<lambda>f. ''      * ['' @ py_rstrip_ws (fst (snd (snd f))) @ '']('' @ sectionName @ ''/''
                        @ fst (snd f) @ ''.md)'' @ [NL])"
    by (rule ext) (simp add: function_line_def split: prod.splits)
  then show "section_lines fs sectionName funcs =
           (''   * ['' @ capitalize sectionName @ '' Functions]('' @ sectionName @ ''/'' @ sectionName
               @ ''_functions.md) '' @ STARTMARKER @ sectionName @ '')'' @ [NL])
           # (if fs (sectionName @ ''/'' @ sectionName @ ''_functions-overview.md'') \<noteq> None
              then [''      * ['' @ capitalize sectionName @ '' Functions Overview]('' @ sectionName
                      @ ''/'' @ sectionName @ ''_functions-overview.md)'' @ [NL]]
              else [])
           @ map (\<lambda>f. ''      * ['' @ py_rstrip_ws (fst (snd (snd f))) @ '']('' @ sectionName @ ''/''
                        @ fst (snd f) @ ''.md)'' @ [NL]) (sort funcs)"
    by (simp add: section_lines_def start_line_def overview_line_def)
qed



section \<open>Index updater: lines outside the sections\<close>






lemma readlines_concat: "concat (readlines s) = s"
  by (induction s) (auto split: list.splits)


section \<open>Index updater: a section of an unknown module\<close>


section \<open>Function doc renderer: the order of the examples\<close>

text \<open>Whatever order three files are found in, they are one of the six arrangements.\<close>

lemma three_perms:
  assumes "mset xs = mset [a, b, c]"
  shows "xs = [a, b, c] \<or> xs = [a, c, b] \<or> xs = [b, a, c] \<or> xs = [b, c, a]
       \<or> xs = [c, a, b] \<or> xs = [c, b, a]"
proof -
  from assms have "length xs = 3" by (metis length_Cons list.size(3) mset_eq_length numeral_3_eq_3)
  then obtain x y z where xs: "xs = [x, y, z]"
    by (auto simp: numeral_3_eq_3 length_Suc_conv)
  with assms show ?thesis
    by (auto simp: add_eq_conv_ex)
qed

lemma append_le_append: "(xs @ ys \<le> xs @ zs) = (ys \<le> (zs :: 'a :: linorder list))"
  by (induction xs) auto

lemma split_char_no_sep: "c \<notin> set b \<Longrightarrow> split_char c b = [b]"
  by (induction b) auto

lemma split_char_append_sep: "c \<notin> set b \<Longrightarrow> split_char c (b @ c # rest) = b # split_char c rest"
  by (induction b) auto


lemma split_example_name:
  "CHR ''.'' \<notin> set b \<Longrightarrow> CHR ''.'' \<notin> set ext \<Longrightarrow>
     split_char (CHR ''.'') (b @ ''.'' @ ext) = [b, ext]"
  by (simp add: split_char_append_sep split_char_no_sep)

lemma sorted_examples_three:
  assumes "CHR ''.'' \<notin> set b"
    and "mset examples = mset [b @ ''.md'', b @ ''.lua'', b @ ''.png'']"
  shows "sorted_examples examples = Inr [[b, ''md''], [b, ''lua''], [b, ''png'']]"
proof -
  have md: "split_char (CHR ''.'') (b @ ''.md'') = [b, ''md'']"
    using split_example_name [OF assms(1), of "''md''"] by simp
  have lua: "split_char (CHR ''.'') (b @ ''.lua'') = [b, ''lua'']"
    using split_example_name [OF assms(1), of "''lua''"] by simp
  have png: "split_char (CHR ''.'') (b @ ''.png'') = [b, ''png'']"
    using split_example_name [OF assms(1), of "''png''"] by simp
  have k: "key_of [b, ''md''] = b @ ''.0''" "key_of [b, ''lua''] = b @ ''.1''"
          "key_of [b, ''png''] = b @ ''.2''"
    by (simp_all add: key_of_def byExtension_key_def)
  from three_perms [OF assms(2)] show ?thesis
    by (elim disjE) (simp_all add: sorted_examples_def md lua png k append_le_append)
qed

text \<open>
  When neither the module name nor the function name holds a dot and exactly the three
  files \<^verbatim>\<open><module>/<func>-example.md\<close>, \<^verbatim>\<open>.lua\<close> and \<^verbatim>\<open>.png\<close> are found, in any
  order, the renderer emits the header, the notes, the download link and the code block,
  then the image reference.
\<close>

lemma addExamples_three_files:
  assumes "CHR ''.'' \<notin> set (moduleName @ ''/'' @ funcName @ ''-example'')"
    and "mset (glob (files w) (moduleName @ ''/'' @ funcName @ ''-example*.*''))
           = mset [moduleName @ ''/'' @ funcName @ ''-example'' @ ''.md'',
                   moduleName @ ''/'' @ funcName @ ''-example'' @ ''.lua'',
                   moduleName @ ''/'' @ funcName @ ''-example'' @ ''.png'']"
    and "files w (moduleName @ ''/'' @ funcName @ ''-example'' @ ''.md'') = Some notes"
    and "files w (moduleName @ ''/'' @ funcName @ ''-example'' @ ''.lua'') = Some luacode"
    and "files w (moduleName @ ''/'' @ funcName @ ''-example'' @ ''.png'') = Some picture"
  shows "fst (addExamples glob moduleName funcName w) =
           Inr ([NL, NL] @ ''---'' @ [NL, NL] @ ''### Examples'' @ [NL, NL]
                @ notes @ [NL, NL]
                @ ''<a class=\"dlbtn\" href=\"'' @ DOCBASE
                @ replace_char (CHR 0x5C) ''/'' (moduleName @ ''/'' @ funcName @ ''-example'' @ ''.lua'')
                @ ''\">'' @ replace_char (CHR 0x5C) ''/'' (moduleName @ ''/'' @ funcName @ ''-example'')
                @ ''</a>'' @ [NL, NL]
                @ ''```lua'' @ [NL] @ luacode @ (if luacode \<noteq> [] \<and> last luacode \<noteq> NL then [NL] else [])
                @ ''```'' @ [NL, NL]
                @ ''![]('' @ basename (moduleName @ ''/'' @ funcName @ ''-example'' @ ''.png'') @ '')''
                @ [NL, NL])"
proof -
  define b where "b = moduleName @ ''/'' @ funcName @ ''-example''"
  have nodot: "CHR ''.'' \<notin> set b" using assms(1) by (simp add: b_def)
  have se: "sorted_examples (glob (files w) (moduleName @ ''/'' @ funcName @ ''-example*.*''))
              = Inr [[b, ''md''], [b, ''lua''], [b, ''png'']]"
    using sorted_examples_three [OF nodot] assms(2) by (simp add: b_def)
  have ne: "length (glob (files w) (moduleName @ ''/'' @ funcName @ ''-example*.*'')) > 0"
    using assms(2) by (metis length_greater_0_conv mset.simps(2) mset_zero_iff add_mset_not_empty)
  have f: "files w (b @ ''.md'') = Some notes" "files w (b @ ''.lua'') = Some luacode"
          "files w (b @ ''.png'') = Some picture"
    using assms(3-5) by (simp_all add: b_def)
  have "fst (addExamples glob moduleName funcName w) =
          fst (examples_loop [[b, ''md''], [b, ''lua''], [b, ''png'']]
                 ([NL, NL] @ ''---'' @ [NL, NL] @ ''### Examples'' @ [NL, NL]) w)"
    using se ne by (simp add: addExamples_def Let_def)
  also have "\<dots> = Inr ([NL, NL] @ ''---'' @ [NL, NL] @ ''### Examples'' @ [NL, NL]
                @ notes @ [NL, NL]
                @ ''<a class=\"dlbtn\" href=\"'' @ DOCBASE
                @ replace_char (CHR 0x5C) ''/'' (b @ ''.lua'')
                @ ''\">'' @ replace_char (CHR 0x5C) ''/'' b
                @ ''</a>'' @ [NL, NL]
                @ ''```lua'' @ [NL] @ luacode @ (if luacode \<noteq> [] \<and> last luacode \<noteq> NL then [NL] else [])
                @ ''```'' @ [NL, NL]
                @ ''![]('' @ basename (b @ ''.png'') @ '')''
                @ [NL, NL])"
    using f by (simp add: example_text_def Let_def logInfo_def)
  finally show ?thesis by (simp add: b_def)
qed



section \<open>Index updater: running it again\<close>


















lemma py_find_prefix: "s \<noteq> [] \<Longrightarrow> prefix m s \<Longrightarrow> py_find m s = Some 0"
  by (cases s) auto
















section \<open>Worked examples\<close>











definition ex_clear :: funcrec where
  "ex_clear = (''lcd'', ''clear'', ''lcd.clear()'' @ [NL, NL], ''Clears'' @ [NL], [], [], [])"

definition ex_abc :: funcrec where
  "ex_abc = (''lcd'', ''abc'', ''lcd.abc(x)'' @ [NL, NL], ''Abc'' @ [NL], [(''x'', ''the x'')], [], [])"

lemma ex_sort: "sort [ex_clear, ex_abc] = [ex_abc, ex_clear]"
  by (simp add: ex_clear_def ex_abc_def less_eq_prod_def less_prod_def)


theorem insertSection_module_witness:
  "''lcd'' \<noteq> ''timestamp''
   \<and> map_of [(''lcd'', [ex_clear, ex_abc])] ''lcd'' = Some [ex_clear, ex_abc]
   \<and> insertSection [(''lcd'', [ex_clear, ex_abc])] Map.empty [] [''# Summary'' @ [NL]] ''lcd''
       = Inr [''# Summary'' @ [NL],
              ''   * [Lcd Functions](lcd/lcd_functions.md) [//]: <> (LUADOC-BEGIN:lcd)'' @ [NL],
              ''      * [lcd.abc(x)](lcd/abc.md)'' @ [NL],
              ''      * [lcd.clear()](lcd/clear.md) [//]: <> (LUADOC-END:lcd)'' @ [NL]]"
proof -
  have n: "''lcd'' \<noteq> ''timestamp''" by simp
  have m: "map_of [(''lcd'', [ex_clear, ex_abc])] ''lcd'' = Some [ex_clear, ex_abc]" by simp
  have l: "section_lines Map.empty ''lcd'' [ex_clear, ex_abc] =
             [''   * [Lcd Functions](lcd/lcd_functions.md) [//]: <> (LUADOC-BEGIN:lcd)'' @ [NL],
              ''      * [lcd.abc(x)](lcd/abc.md)'' @ [NL],
              ''      * [lcd.clear()](lcd/clear.md)'' @ [NL]]"
    by (simp add: section_lines_def ex_sort start_line_def function_line_def capitalize_def
          upper_char_def lower_char_def STARTMARKER_def py_rstrip_ws_def is_space_def
          ex_clear_def [symmetric] ex_abc_def [symmetric])
       (simp add: ex_clear_def ex_abc_def function_line_def py_rstrip_ws_def is_space_def)
  from insertSection_module [OF n m, of Map.empty "[]" "[''# Summary'' @ [NL]]"] n m
  show ?thesis
    by (simp add: l py_rstrip_ws_def is_space_def ENDMARKER_def)
qed











definition ex_dotted_found :: "string list" where
  "ex_dotted_found =
     [''general/a.b.c-example.png'', ''general/a.b.c-example.lua'', ''general/a.b.c-example.md'']"

definition ex_dotted_glob :: "(string \<rightharpoonup> string) \<Rightarrow> string \<Rightarrow> string list" where
  "ex_dotted_glob fs pattern =
     (if pattern = ''general/a.b.c-example*.*'' then ex_dotted_found else [])"

definition ex_dotted_world :: world where
  "ex_dotted_world =
     \<lparr>MODULES = [], stdout = [],
      files = [''general/a.b.c-example.md'' \<mapsto> ''Notes.'',
               ''general/a.b.c-example.lua'' \<mapsto> ''x = 1'',
               ''general/a.b.c-example.png'' \<mapsto> []],
      remote = Map.empty\<rparr>"

lemma ex_dotted_sorted:
  "sorted_examples ex_dotted_found =
     Inr [[''general/a'', ''b'', ''c-example'', ''png''],
          [''general/a'', ''b'', ''c-example'', ''lua''],
          [''general/a'', ''b'', ''c-example'', ''md'']]"
  by (simp add: sorted_examples_def ex_dotted_found_def key_of_def byExtension_key_def)

text \<open>
  C8. The claim is about every function; the code misses the functions whose name holds a
  dot. The declaration \<^verbatim>\<open>a.b.c(x)\<close> gives the module \<^verbatim>\<open>general\<close> and the function
  name \<^verbatim>\<open>a.b.c\<close>. Each of its three example files is split at every dot, so all three
  get the sort key \<^verbatim>\<open>general/a.0\<close> and stay in the order they were found in (here
  image, code, notes), and the renderer then opens \<^verbatim>\<open>general/a.b\<close>, which does not
  exist: it raises \<open>IOError\<close> and emits nothing.
\<close>

theorem addExamples_dotted_name:
  "functionObject_of (''@function a.b.c(x)'' @ [NL])
     = Inr (''general'', ''a.b.c'', ''a.b.c(x)'' @ [NL, NL], [], [], [], [])
   \<and> sorted_examples ex_dotted_found =
       Inr [[''general/a'', ''b'', ''c-example'', ''png''],
            [''general/a'', ''b'', ''c-example'', ''lua''],
            [''general/a'', ''b'', ''c-example'', ''md'']]
   \<and> fst (addExamples ex_dotted_glob ''general'' ''a.b.c'' ex_dotted_world)
       = Inl (IOError ''general/a.b'')"
proof (intro conjI)
  show "functionObject_of (''@function a.b.c(x)'' @ [NL])
     = Inr (''general'', ''a.b.c'', ''a.b.c(x)'' @ [NL, NL], [], [], [], [])"
    by (simp add: run_extract)
  show "sorted_examples ex_dotted_found =
       Inr [[''general/a'', ''b'', ''c-example'', ''png''],
            [''general/a'', ''b'', ''c-example'', ''lua''],
            [''general/a'', ''b'', ''c-example'', ''md'']]"
    by (rule ex_dotted_sorted)
  have g: "ex_dotted_glob (files ex_dotted_world) (''general'' @ ''/'' @ ''a.b.c'' @ ''-example*.*'')
             = ex_dotted_found"
    by (simp add: ex_dotted_glob_def)
  have n: "length ex_dotted_found > 0"
    by (simp add: ex_dotted_found_def)
  show "fst (addExamples ex_dotted_glob ''general'' ''a.b.c'' ex_dotted_world)
       = Inl (IOError ''general/a.b'')"
    unfolding addExamples_def Let_def g ex_dotted_sorted
    using n by (simp add: ex_dotted_world_def logInfo_def Let_def)
qed



definition ex_index_world :: "registry \<Rightarrow> string \<Rightarrow> world" where
  "ex_index_world MODS summary =
     \<lparr>MODULES = MODS, stdout = [], files = [''SUMMARY.md'' \<mapsto> summary], remote = Map.empty\<rparr>"


lemmas run_replace =
  replaceSections_def ex_index_world_def run_section_name insertSection_def logInfo_def Let_def
  start_line_def function_line_def close_line_def capitalize_def upper_char_def lower_char_def
  py_rstrip_ws_def is_space_def


































end
